theory Spec2Isabelle
  imports Main "HOL-Library.Sublist"
begin

section \<open>Data model\<close>

text \<open>
  The two dialect drivers (package \<open>mssql\<close> and package \<open>mysql\<close>) share the types of
  package \<open>dbi\<close>, which is not part of the sources at hand. Its structs are modelled with
  the fields the drivers read and write; its constants are modelled as enumerations.
\<close>

text \<open>\<open>time.Time\<close>, by its calendar fields.\<close>

datatype gotime = GoTime (year: int) (month: int) (day: int) (hour: int) (minute: int) (second: int)

text \<open>\<open>time.Time{}\<close>, the zero value: January 1 of year 1, 00:00:00 UTC.\<close>

definition zeroTime :: gotime where
  "zeroTime = GoTime 1 1 1 0 0 0"

text \<open>Go's \<open>any\<close>, restricted to the dynamic types that a database cell carries.\<close>

datatype anyv = VNil | VInt int | VStr string | VBool bool | VTime gotime

text \<open>
  Errors. \<open>QueryError\<close> carries the text of an error that the connection returned;
  \<open>TableNotFound t\<close> is \<open>errorx.NewBiz("[%s] ...", t)\<close>, the business error saying
  that table \<open>t\<close> does not exist; \<open>Panic\<close> is a Go run-time panic (index out of range).
\<close>

datatype error = QueryError string | TableNotFound string | Panic string

text \<open>
  The lines written by \<open>logx.Errorf\<close>, one constructor per call: the failed merge
  statement (error text, statement), and the three failures of the MySQL \<open>GetTableDDL\<close>
  (table name).
\<close>

datatype logline =
    ExecSqlFailed string string
  | GetTableInfoFailed string
  | GetColumnInfoFailed string
  | GetIndexInfoFailed string

text \<open>
  \<open>dbi.DuplicateStrategyNone\<close>, \<open>...Ignore\<close> and \<open>...Update\<close> are integer constants
  declared outside the sources; the three policies are modelled as an enumeration.
\<close>

datatype DuplicateStrategy = DuplicateStrategyNone | DuplicateStrategyIgnore | DuplicateStrategyUpdate

text \<open>
  \<open>dbi.Column\<close> with the fields that the MySQL driver fills. The SQL Server driver is
  written against a \<open>dbi.Column\<close> whose type, nullability and scale are texts; of a
  column it reads \<open>ColumnName\<close>, \<open>IsPrimaryKey\<close> and \<open>IsIdentity\<close> only in the
  functions modelled here, so one record serves both drivers.
\<close>

record Column =
  TableName :: string
  ColumnName :: string
  DataType :: string
  ColumnComment :: string
  Nullable :: bool
  IsPrimaryKey :: bool
  IsIdentity :: bool
  ColumnDefault :: string
  CharMaxLength :: int
  NumPrecision :: int
  NumScale :: int

record Index =
  IndexName :: string
  ColumnName :: string
  IndexType :: string
  IndexComment :: string
  IsUnique :: bool
  SeqInIndex :: int

record Table =
  TableName :: string
  TableComment :: string
  CreateTime :: string
  TableRows :: int
  DataLength :: int
  IndexLength :: int

text \<open>
  The field names \<open>ColumnName\<close> and \<open>TableName\<close> occur in more than one struct; they are
  written with the struct's name in front: \<open>Column.ColumnName\<close>, \<open>Index.ColumnName\<close>.
\<close>

text \<open>The metadata queries, named by the keys under which the drivers load their text.\<close>

datatype metaKey =
    MSSQL_INDEX_INFO_KEY | MSSQL_COLUMN_MA_KEY
  | MYSQL_TABLE_INFO_KEY | MYSQL_INDEX_INFO_KEY | MYSQL_COLUMN_MA_KEY

text \<open>
  The connection \<open>md.dc\<close> (\<open>*dbi.DbConn\<close>). The connection, the text of the metadata
  queries and the converters from result rows to structs are outside the sources, so the
  connection is a parameter of every driver function:
  \<^item> \<open>Database\<close> is \<open>dc.Info.Database\<close>;
  \<^item> \<open>QuoteIdentifier\<close> and \<open>RemoveQuote\<close> are the functions of the database type;
  \<^item> \<open>TxExec\<close> executes a statement with its arguments on the engine state \<open>'db\<close>
    and returns the new state with the error text or the number of rows affected;
  \<^item> \<open>ColumnRows\<close>, \<open>IndexRows\<close> and \<open>TableRows\<close> give the outcome of a metadata
    query (named by its key, with the strings the driver passes to it) already converted
    field by field into structs, in the order the engine returned the rows, or the
    error text.
\<close>

record 'db DbConn =
  Database :: string
  QuoteIdentifier :: "string \<Rightarrow> string"
  RemoveQuote :: "string \<Rightarrow> string"
  TxExec :: "'db \<Rightarrow> string \<Rightarrow> anyv list \<Rightarrow> 'db \<times> (string + int)"
  ColumnRows :: "'db \<Rightarrow> metaKey \<Rightarrow> string list \<Rightarrow> string + Column list"
  IndexRows :: "'db \<Rightarrow> metaKey \<Rightarrow> string list \<Rightarrow> string + Index list"
  TableRows :: "'db \<Rightarrow> metaKey \<Rightarrow> string list \<Rightarrow> string + Table list"

section \<open>Functions of Go's \<open>strings\<close> package\<close>

text \<open>\<open>strings.Join(elems, sep)\<close>.\<close>

fun Join :: "string list \<Rightarrow> string \<Rightarrow> string" where
  "Join [] sep = []"
| "Join [x] sep = x"
| "Join (x # y # ys) sep = x @ sep @ Join (y # ys) sep"

text \<open>\<open>strings.Repeat(s, count)\<close>, for a count that is a length.\<close>

definition Repeat :: "string \<Rightarrow> nat \<Rightarrow> string" where
  "Repeat s count = concat (replicate count s)"

text \<open>\<open>strings.TrimSuffix(s, suffix)\<close> and \<open>strings.HasPrefix(s, prefix)\<close>.\<close>

definition TrimSuffix :: "string \<Rightarrow> string \<Rightarrow> string" where
  "TrimSuffix s suf = (if suffix suf s then take (length s - length suf) s else s)"

definition HasPrefix :: "string \<Rightarrow> string \<Rightarrow> bool" where
  "HasPrefix s pre = prefix pre s"

text \<open>
  \<open>strings.ReplaceAll(s, old, new)\<close> and \<open>strings.Split(s, sep)\<close> for a non-empty \<open>old\<close>
  and \<open>sep\<close>, which is what every call of the drivers passes; the functions are left
  unspecified on the empty pattern. Matches are taken from left to right and do not
  overlap. \<open>Split\<close> of the empty string is the list of one empty string.
\<close>

fun ReplaceAll :: "string \<Rightarrow> string \<Rightarrow> string \<Rightarrow> string" where
  "ReplaceAll [] (c # cs) new = []"
| "ReplaceAll (x # xs) (c # cs) new =
     (if prefix (c # cs) (x # xs) then new @ ReplaceAll (drop (length cs) xs) (c # cs) new
      else x # ReplaceAll xs (c # cs) new)"

fun Split :: "string \<Rightarrow> string \<Rightarrow> string list" where
  "Split [] (c # cs) = [[]]"
| "Split (x # xs) (c # cs) =
     (if prefix (c # cs) (x # xs) then [] # Split (drop (length cs) xs) (c # cs)
      else (case Split xs (c # cs) of w # ws \<Rightarrow> (x # w) # ws | [] \<Rightarrow> [[x]]))"


section \<open>Column introspection and GetPrimaryKey\<close>

text \<open>\<open>MssqlDialect.currentSchema\<close>: the part of the database name after the slash.\<close>

definition currentSchema :: "'db DbConn \<Rightarrow> string" where
  "currentSchema dc =
     (let dbName = Database dc;
          arr = Split dbName ''/''
      in if length arr = 2 then arr ! 1 else [])"

text \<open>
  \<open>GetColumns\<close> of either driver: the table names, unquoted and put between single
  quotes, are joined by commas and handed to the column query (with the current schema,
  for SQL Server); each row becomes a \<open>dbi.Column\<close>.
\<close>

definition mssql_GetColumns :: "'db DbConn \<Rightarrow> 'db \<Rightarrow> string list \<Rightarrow> error + Column list" where
  "mssql_GetColumns dc db tableNames =
     (let tableName = Join (map (\<lambda>val. [CHR 0x27] @ RemoveQuote dc val @ [CHR 0x27]) tableNames) '',''
      in case ColumnRows dc db MSSQL_COLUMN_MA_KEY [tableName, currentSchema dc] of
           Inl err \<Rightarrow> Inl (QueryError err)
         | Inr columns \<Rightarrow> Inr columns)"

definition mysql_GetColumns :: "'db DbConn \<Rightarrow> 'db \<Rightarrow> string list \<Rightarrow> error + Column list" where
  "mysql_GetColumns dc db tableNames =
     (let tableName = Join (map (\<lambda>val. [CHR 0x27] @ RemoveQuote dc val @ [CHR 0x27]) tableNames) '',''
      in case ColumnRows dc db MYSQL_COLUMN_MA_KEY [tableName] of
           Inl err \<Rightarrow> Inl (QueryError err)
         | Inr columns \<Rightarrow> Inr columns)"

text \<open>The loop \<open>for _, v := range columns { if v.IsPrimaryKey { return v.ColumnName, nil } }\<close>.\<close>

fun firstPrimaryKey :: "Column list \<Rightarrow> string option" where
  "firstPrimaryKey [] = None"
| "firstPrimaryKey (v # vs) =
     (if IsPrimaryKey v then Some (Column.ColumnName v) else firstPrimaryKey vs)"

text \<open>
  \<open>MssqlDialect.GetPrimaryKey\<close> and \<open>MysqlMetaData.GetPrimaryKey\<close>: the two bodies are
  the same, each over the \<open>GetColumns\<close> of its own driver.
\<close>

definition mssql_GetPrimaryKey :: "'db DbConn \<Rightarrow> 'db \<Rightarrow> string \<Rightarrow> error + string" where
  "mssql_GetPrimaryKey dc db tablename =
     (case mssql_GetColumns dc db [tablename] of
        Inl err \<Rightarrow> Inl err
      | Inr columns \<Rightarrow>
          if length columns = 0 then Inl (TableNotFound tablename)
          else (case firstPrimaryKey columns of
                  Some name \<Rightarrow> Inr name
                | None \<Rightarrow> Inr (Column.ColumnName (columns ! 0))))"

definition mysql_GetPrimaryKey :: "'db DbConn \<Rightarrow> 'db \<Rightarrow> string \<Rightarrow> error + string" where
  "mysql_GetPrimaryKey dc db tablename =
     (case mysql_GetColumns dc db [tablename] of
        Inl err \<Rightarrow> Inl err
      | Inr columns \<Rightarrow>
          if length columns = 0 then Inl (TableNotFound tablename)
          else (case firstPrimaryKey columns of
                  Some name \<Rightarrow> Inr name
                | None \<Rightarrow> Inr (Column.ColumnName (columns ! 0))))"

section \<open>Index introspection\<close>

text \<open>
  The grouping loop of \<open>getTableIndexWithPK\<close> and of the MySQL \<open>GetTableIndex\<close>, with
  its variables \<open>key\<close> and \<open>result\<close>:
  \<^verbatim>\<open>
  for _, v := range indexs {
      in := v.IndexName
      if key == in {
          i := len(result) - 1
          result[i].ColumnName = result[i].ColumnName + "," + v.ColumnName
      } else {
          key = in
          result = append(result, v)
      }
  }
  \<close>
  When \<open>key == in\<close> holds while \<open>result\<close> is still empty (the first row has the empty
  index name), \<open>i\<close> is \<open>-1\<close> and the assignment panics.
\<close>

fun groupIndexs :: "string \<Rightarrow> Index list \<Rightarrow> Index list \<Rightarrow> error + Index list" where
  "groupIndexs key result [] = Inr result"
| "groupIndexs key result (v # indexs) =
     (let iname = IndexName v in
      if key = iname then
        (if length result = 0 then Inl (Panic ''index out of range [-1]'')
         else
           let i = length result - 1;
               r = result ! i
           in groupIndexs key
                (result[i := r\<lparr>Index.ColumnName := Index.ColumnName r @ '','' @ Index.ColumnName v\<rparr>])
                indexs)
      else groupIndexs iname (result @ [v]) indexs)"

text \<open>\<open>MysqlMetaData.GetTableIndex\<close> returns the grouped \<open>result\<close>.\<close>

definition mysql_GetTableIndex :: "'db DbConn \<Rightarrow> 'db \<Rightarrow> string \<Rightarrow> error + Index list" where
  "mysql_GetTableIndex dc db tableName =
     (case IndexRows dc db MYSQL_INDEX_INFO_KEY [tableName] of
        Inl err \<Rightarrow> Inl (QueryError err)
      | Inr indexs \<Rightarrow> groupIndexs [] [] indexs)"

text \<open>
  \<open>MssqlDialect.getTableIndexWithPK\<close> runs the same loop and then ends in
  \<open>return indexs, nil\<close>: it returns the rows as they were read, not \<open>result\<close>.
\<close>

definition getTableIndexWithPK :: "'db DbConn \<Rightarrow> 'db \<Rightarrow> string \<Rightarrow> error + Index list" where
  "getTableIndexWithPK dc db tableName =
     (case IndexRows dc db MSSQL_INDEX_INFO_KEY [currentSchema dc, tableName] of
        Inl err \<Rightarrow> Inl (QueryError err)
      | Inr indexs \<Rightarrow>
          (case groupIndexs [] [] indexs of
             Inl e \<Rightarrow> Inl e
           | Inr result \<Rightarrow> Inr indexs))"

text \<open>
  The loop of \<open>MssqlDialect.GetTableIndex\<close>:
  \<^verbatim>\<open>
  for _, v := range indexs {
      in := v.IndexName
      if strings.HasPrefix(in, "PK__") {
          continue
      }
  }
  \<close>
  Its body ends after the \<open>continue\<close>: no branch appends to \<open>result\<close>.
\<close>

fun skipPKIndexs :: "Index list \<Rightarrow> Index list \<Rightarrow> Index list" where
  "skipPKIndexs result [] = result"
| "skipPKIndexs result (v # indexs) =
     (let iname = IndexName v in
      if HasPrefix iname ''PK__'' then skipPKIndexs result indexs
      else skipPKIndexs result indexs)"

text \<open>
  \<open>MssqlDialect.GetTableIndex\<close> drops the error of \<open>getTableIndexWithPK\<close>
  (\<open>indexs, _ := ...\<close>, so a failed query leaves \<open>indexs\<close> nil); a panic is not an
  error value and goes through.
\<close>

definition mssql_GetTableIndex :: "'db DbConn \<Rightarrow> 'db \<Rightarrow> string \<Rightarrow> error + Index list" where
  "mssql_GetTableIndex dc db tableName =
     (case getTableIndexWithPK dc db tableName of
        Inl (Panic msg) \<Rightarrow> Inl (Panic msg)
      | Inl err \<Rightarrow> Inr (skipPKIndexs [] [])
      | Inr indexs \<Rightarrow> Inr (skipPKIndexs [] indexs))"

section \<open>Batch insert (SQL Server)\<close>

text \<open>
  The loops of \<open>batchInsertSimple\<close> that collect the columns of the unique indexes:
  \<open>addUniqueColumns\<close> is the inner loop over the columns of one index,
  \<open>collectUniqueColumns\<close> the outer loop over the indexes. \<open>collx.ArrayContains\<close>
  (outside the sources) is membership in the slice.
\<close>

fun addUniqueColumns :: "string list \<Rightarrow> string list \<Rightarrow> string list" where
  "addUniqueColumns uniqueColumns [] = uniqueColumns"
| "addUniqueColumns uniqueColumns (col # cols) =
     (if col \<notin> set uniqueColumns then addUniqueColumns (uniqueColumns @ [col]) cols
      else addUniqueColumns uniqueColumns cols)"

fun collectUniqueColumns :: "string list \<Rightarrow> Index list \<Rightarrow> string list" where
  "collectUniqueColumns uniqueColumns [] = uniqueColumns"
| "collectUniqueColumns uniqueColumns (index # indexs) =
     (if IsUnique index
      then collectUniqueColumns (addUniqueColumns uniqueColumns (Split (Index.ColumnName index) '','')) indexs
      else collectUniqueColumns uniqueColumns indexs)"

text \<open>
  The first block of \<open>batchInsertSimple\<close>, taken when the strategy is Ignore: it yields
  the engine state after the \<open>ALTER TABLE ... IGNORE_DUP_KEY = ON\<close> statement and the
  text \<open>ignoreDupSql\<close> (empty when nothing was executed); \<open>ignoreDupSqlText\<close> is the
  text that \<open>fmt.Sprintf\<close> builds there. The error of
  \<open>getTableIndexWithPK\<close> and the outcome of the statement are dropped
  (\<open>indexs, _ :=\<close> and \<open>_, _ =\<close>).
\<close>

definition ignoreDupSqlText :: "string \<Rightarrow> string \<Rightarrow> string list \<Rightarrow> string" where
  "ignoreDupSqlText schema tableName uniqueColumns =
     ''ALTER TABLE '' @ schema @ ''.'' @ tableName
       @ '' ADD CONSTRAINT uniqueRows UNIQUE ('' @ Join uniqueColumns '',''
       @ '') WITH (IGNORE_DUP_KEY = {sign})''"

definition setIgnoreDupKey ::
  "'db DbConn \<Rightarrow> 'db \<Rightarrow> string \<Rightarrow> string \<Rightarrow> DuplicateStrategy \<Rightarrow> error + 'db \<times> string" where
  "setIgnoreDupKey dc db schema tableName duplicateStrategy =
     (if duplicateStrategy = DuplicateStrategyIgnore then
        (case getTableIndexWithPK dc db tableName of
           Inl (Panic msg) \<Rightarrow> Inl (Panic msg)
         | r \<Rightarrow>
            let indexs = (case r of Inr xs \<Rightarrow> xs | Inl err \<Rightarrow> []);
                uniqueColumns = collectUniqueColumns [] indexs
            in if length uniqueColumns > 0 then
                 let ignoreDupSql = ignoreDupSqlText schema tableName uniqueColumns
                 in Inr (fst (TxExec dc db (ReplaceAll ignoreDupSql ''{sign}'' ''ON'') []), ignoreDupSql)
               else Inr (db, []))
      else Inr (db, []))"

text \<open>The statement text that \<open>batchInsertSimple\<close> builds in \<open>sqlStr\<close>.\<close>

definition insertSqlStr :: "'db DbConn \<Rightarrow> string \<Rightarrow> string \<Rightarrow> string list \<Rightarrow> nat \<Rightarrow> string" where
  "insertSqlStr dc schema tableName columns nvalues =
     (let repeated = Repeat ''?,'' (length columns);
          placeholder = ''('' @ TrimSuffix repeated '','' @ '')'';
          repeated = Repeat (placeholder @ '','') nvalues;
          placeholder = TrimSuffix repeated '','';
          baseTable = QuoteIdentifier dc schema @ ''.'' @ QuoteIdentifier dc tableName
      in ''insert into '' @ baseTable @ '' ('' @ Join columns '','' @ '') values '' @ placeholder)"

definition batchInsertSimple ::
  "'db DbConn \<Rightarrow> 'db \<Rightarrow> string \<Rightarrow> string list \<Rightarrow> anyv list list \<Rightarrow> DuplicateStrategy \<Rightarrow> 'db \<times> (error + int)" where
  "batchInsertSimple dc db tableName columns vals duplicateStrategy =
     (let schema = currentSchema dc in
      case setIgnoreDupKey dc db schema tableName duplicateStrategy of
        Inl e \<Rightarrow> (db, Inl e)
      | Inr (db1, ignoreDupSql) \<Rightarrow>
          let sqlStr = insertSqlStr dc schema tableName columns (length vals);
              args = concat vals;
              identityInsertOn = ''SET IDENTITY_INSERT ['' @ schema @ ''].['' @ tableName @ ''] ON'';
              (db2, res) = TxExec dc db1 (identityInsertOn @ '' '' @ sqlStr) args;
              db3 = (if ignoreDupSql \<noteq> []
                     then fst (TxExec dc db2 (ReplaceAll ignoreDupSql ''{sign}'' ''OFF'') [])
                     else db2)
          in (db3, case res of Inl err \<Rightarrow> Inl (QueryError err) | Inr n \<Rightarrow> Inr n))"

text \<open>
  \<open>batchInsertMerge\<close>. The error of \<open>GetColumns\<close> is assigned to \<open>err\<close> and not looked
  at before \<open>err\<close> is assigned again by \<open>TxExec\<close>; after a failed column query \<open>cols\<close> is
  nil. The loops that only append are written with \<open>map\<close> and \<open>filter\<close>. The result also
  carries the lines written by \<open>logx.Errorf\<close>.
\<close>

definition mergeSqlTemp :: "'db DbConn \<Rightarrow> string \<Rightarrow> string \<Rightarrow> Column list \<Rightarrow> string list \<Rightarrow> nat \<Rightarrow> string" where
  "mergeSqlTemp dc schema tableName cols columns nvalues =
     (let identityCols = map Column.ColumnName (filter IsIdentity cols);
          caseSqls = map (\<lambda>col. let name = QuoteIdentifier dc (Column.ColumnName col)
                                 in '' T1.'' @ name @ '' = T2.'' @ name @ '' '')
                         (filter IsPrimaryKey cols);
          upds = map (\<lambda>column. ''T1.'' @ column @ '' = T2.'' @ column)
                     (filter (\<lambda>column. RemoveQuote dc column \<notin> set identityCols) columns);
          insertCols = columns;
          insertVals = map (\<lambda>column. ''T2.'' @ column) columns;
          phs = map (\<lambda>column. ''? '' @ column) columns;
          tmp = ''select '' @ Join phs '','';
          t2s = replicate nvalues tmp;
          t2 = Join t2s '' UNION ALL ''
      in ''MERGE INTO '' @ QuoteIdentifier dc schema @ ''.'' @ QuoteIdentifier dc tableName
           @ '' T1 USING ('' @ t2 @ '') T2 ON '' @ Join caseSqls '' AND ''
           @ ''WHEN NOT MATCHED THEN INSERT ('' @ Join insertCols '','' @ '') VALUES (''
           @ Join insertVals '','' @ '') ''
           @ ''WHEN MATCHED THEN UPDATE SET '' @ Join upds '','')"

definition batchInsertMerge ::
  "'db DbConn \<Rightarrow> 'db \<Rightarrow> string \<Rightarrow> string list \<Rightarrow> anyv list list \<Rightarrow> DuplicateStrategy
     \<Rightarrow> 'db \<times> logline list \<times> (error + int)" where
  "batchInsertMerge dc db tableName columns vals duplicateStrategy =
     (let schema = currentSchema dc;
          cols = (case mssql_GetColumns dc db [tableName] of Inl err \<Rightarrow> [] | Inr cs \<Rightarrow> cs);
          pkCols = map Column.ColumnName (filter IsPrimaryKey cols)
      in if length pkCols = 0 then
           (let (db', r) = batchInsertSimple dc db tableName columns vals duplicateStrategy
            in (db', [], r))
         else
           let args = concat vals;
               sqlTemp = mergeSqlTemp dc schema tableName cols columns (length vals);
               identityInsertOn = ''SET IDENTITY_INSERT ['' @ schema @ ''].['' @ tableName @ ''] ON'';
               (db', res) = TxExec dc db (identityInsertOn @ '' '' @ sqlTemp @ '';'') args
           in case res of
                Inl err \<Rightarrow> (db', [ExecSqlFailed err sqlTemp], Inl (QueryError err))
              | Inr n \<Rightarrow> (db', [], Inr n))"

definition BatchInsert ::
  "'db DbConn \<Rightarrow> 'db \<Rightarrow> string \<Rightarrow> string list \<Rightarrow> anyv list list \<Rightarrow> DuplicateStrategy
     \<Rightarrow> 'db \<times> logline list \<times> (error + int)" where
  "BatchInsert dc db tableName columns vals duplicateStrategy =
     (if duplicateStrategy = DuplicateStrategyUpdate
      then batchInsertMerge dc db tableName columns vals duplicateStrategy
      else (let (db', r) = batchInsertSimple dc db tableName columns vals duplicateStrategy
            in (db', [], r)))"

text \<open>
  A connection that also records what is executed: the engine state is paired with the
  list of the statements passed to \<open>TxExec\<close> so far, each with its arguments. Everything
  else is handed to the connection underneath.
\<close>

definition recording :: "'db DbConn \<Rightarrow> ('db \<times> (string \<times> anyv list) list) DbConn" where
  "recording dc =
     \<lparr>Database = Database dc,
      QuoteIdentifier = QuoteIdentifier dc,
      RemoveQuote = RemoveQuote dc,
      TxExec = (\<lambda>(db, tr) sql args. let (db', r) = TxExec dc db sql args in ((db', tr @ [(sql, args)]), r)),
      ColumnRows = (\<lambda>(db, tr). ColumnRows dc db),
      IndexRows = (\<lambda>(db, tr). IndexRows dc db),
      TableRows = (\<lambda>(db, tr). TableRows dc db)\<rparr>"

text \<open>
  A statement that removes a constraint or an index carries the keyword \<open>DROP\<close>; this
  test is used to say of an executed statement that it is no removal.
\<close>

definition dropsConstraint :: "string \<Rightarrow> bool" where
  "dropsConstraint sql = sublist ''DROP'' sql"

section \<open>Table DDL (MySQL)\<close>

text \<open>
  \<open>MysqlMetaData.GetTables\<close>: the outcome of the table query for the quoted names
  (a failure of \<open>stringx.TemplateParse\<close> is one of the query's errors).
\<close>

definition mysql_GetTables :: "'db DbConn \<Rightarrow> 'db \<Rightarrow> string list \<Rightarrow> error + Table list" where
  "mysql_GetTables dc db tableNames =
     (let names = Join (map (\<lambda>val. [CHR 0x27] @ RemoveQuote dc val @ [CHR 0x27]) tableNames) '',''
      in case TableRows dc db MYSQL_TABLE_INFO_KEY [names] of
           Inl err \<Rightarrow> Inl (QueryError err)
         | Inr tables \<Rightarrow> Inr tables)"

text \<open>
  Functions that the DDL generator calls and that are outside the sources:
  \<open>Column.GetColumnType\<close> of package \<open>dbi\<close>, \<open>collx.ArrayAnyMatches\<close>, and
  \<open>strings.ToLower\<close> and \<open>strings.ToUpper\<close>. They are parameters.
\<close>

record ddlHelpers =
  GetColumnType :: "Column \<Rightarrow> string"
  ArrayAnyMatches :: "string list \<Rightarrow> string \<Rightarrow> bool"
  ToLower :: "string \<Rightarrow> string"
  ToUpper :: "string \<Rightarrow> string"

text \<open>\<open>strings.NewReplacer(";", "", "'", "").Replace\<close>: both characters are deleted.\<close>

definition replacer :: "string \<Rightarrow> string" where
  "replacer s = filter (\<lambda>c. c \<noteq> CHR '';'' \<and> c \<noteq> CHR 0x27) s"

definition genColumnBasicSql :: "ddlHelpers \<Rightarrow> 'db DbConn \<Rightarrow> Column \<Rightarrow> string" where
  "genColumnBasicSql h dc column =
     (let dataType = DataType column;
          incr = (if IsIdentity column then '' AUTO_INCREMENT'' else []);
          nullAble = (if \<not> Nullable column then '' NOT NULL'' else []);
          defVal =
            (if ColumnDefault column \<noteq> [] \<and> CHR ''('' \<notin> set (ColumnDefault column) then
               let mark =
                     (if ArrayAnyMatches h [''char'', ''text'', ''date'', ''time'', ''lob''] (ToLower h dataType)
                      then (if ArrayAnyMatches h [''date'', ''time''] (ToLower h dataType)
                               \<and> ArrayAnyMatches h [''DATE'', ''TIME''] (ToUpper h (ColumnDefault column))
                            then False else True)
                      else False)
               in if mark then '' DEFAULT '' @ [CHR 0x27] @ ColumnDefault column @ [CHR 0x27]
                  else '' DEFAULT '' @ ColumnDefault column
             else []);
          comment =
            (if ColumnComment column \<noteq> []
             then '' COMMENT '' @ [CHR 0x27] @ replacer (ColumnComment column) @ [CHR 0x27]
             else [])
      in '' '' @ QuoteIdentifier dc (Column.ColumnName column) @ '' '' @ GetColumnType h column
           @ '' '' @ nullAble @ '' '' @ incr @ '' '' @ defVal @ '' '' @ comment)"

definition GenerateTableDDL :: "ddlHelpers \<Rightarrow> 'db DbConn \<Rightarrow> Column list \<Rightarrow> Table \<Rightarrow> bool \<Rightarrow> string list" where
  "GenerateTableDDL h dc columns tableInfo dropBeforeCreate =
     (let sqlArr = (if dropBeforeCreate
                    then [''DROP TABLE IF EXISTS '' @ QuoteIdentifier dc (Table.TableName tableInfo) @ '';'']
                    else []);
          createSql = ''CREATE TABLE '' @ QuoteIdentifier dc (Table.TableName tableInfo) @ '' ('' @ [CHR 0x0A];
          pks = map Column.ColumnName (filter IsPrimaryKey columns);
          fields = map (genColumnBasicSql h dc) columns;
          createSql = createSql @ Join fields ('','' @ [CHR 0x0A]);
          createSql = (if length pks > 0
                       then createSql @ '', '' @ [CHR 0x0A] @ ''PRIMARY KEY ('' @ Join pks '','' @ '')''
                       else createSql);
          createSql = createSql @ '') ENGINE=InnoDB DEFAULT CHARSET=utf8mb4 '';
          createSql = (if TableComment tableInfo \<noteq> []
                       then createSql @ '' COMMENT '' @ [CHR 0x27] @ replacer (TableComment tableInfo) @ [CHR 0x27]
                       else createSql)
      in sqlArr @ [createSql])"

definition GenerateIndexDDL :: "'db DbConn \<Rightarrow> Index list \<Rightarrow> Table \<Rightarrow> string list" where
  "GenerateIndexDDL dc indexs tableInfo =
     map (\<lambda>index.
            let columnName = ReplaceAll (Index.ColumnName index) ''-'' [];
                columnName = ReplaceAll columnName ''_'' [];
                colName = ReplaceAll columnName '','' ''_'';
                keyType = (if IsUnique index then ''unique'' else ''normal'');
                unique = (if IsUnique index then ''unique'' else []);
                indexName = keyType @ ''_key_'' @ Table.TableName tableInfo @ ''_'' @ colName
            in ''ALTER TABLE '' @ QuoteIdentifier dc (Table.TableName tableInfo) @ '' ADD '' @ unique
                 @ '' INDEX '' @ indexName @ ''('' @ Index.ColumnName index @ '') USING BTREE COMMENT ''
                 @ [CHR 0x27] @ replacer (IndexComment index) @ [CHR 0x27])
         indexs"

text \<open>
  \<open>MysqlMetaData.GetTableDDL\<close>. Its first check is
  \<open>if err != nil && len(tbs) > 0 { ...; return "", err }\<close>, and the next statement reads
  \<open>tbs[0]\<close>; on an empty \<open>tbs\<close> (also the nil slice that comes with an error) that read
  panics. \<open>tableDDLOf\<close> is the function from that read on. The result carries the lines
  written by \<open>logx.Errorf\<close>.
\<close>

definition tableDDLOf ::
  "ddlHelpers \<Rightarrow> 'db DbConn \<Rightarrow> 'db \<Rightarrow> string \<Rightarrow> Table list \<Rightarrow> logline list \<times> (error + string)" where
  "tableDDLOf h dc db tableName tbs =
     (if length tbs = 0 then ([], Inl (Panic ''index out of range [0] with length 0''))
      else
        let tableInfo = \<lparr>Table.TableName = Table.TableName (tbs ! 0),
                          TableComment = TableComment (tbs ! 0),
                          CreateTime = [], TableRows = 0, DataLength = 0, IndexLength = 0\<rparr>
        in case mysql_GetColumns dc db [tableName] of
             Inl err \<Rightarrow> ([GetColumnInfoFailed tableName], Inl err)
           | Inr columns \<Rightarrow>
              let tableDDLArr = GenerateTableDDL h dc columns tableInfo False
              in case mysql_GetTableIndex dc db tableName of
                   Inl (Panic msg) \<Rightarrow> ([], Inl (Panic msg))
                 | Inl err \<Rightarrow> ([GetIndexInfoFailed tableName], Inl err)
                 | Inr indexs \<Rightarrow>
                     ([], Inr (Join (tableDDLArr @ GenerateIndexDDL dc indexs tableInfo) ('';'' @ [CHR 0x0A]))))"

definition mysql_GetTableDDL ::
  "ddlHelpers \<Rightarrow> 'db DbConn \<Rightarrow> 'db \<Rightarrow> string \<Rightarrow> logline list \<times> (error + string)" where
  "mysql_GetTableDDL h dc db tableName =
     (case mysql_GetTables dc db [tableName] of
        Inl err \<Rightarrow>
          (let tbs = [] in
           if length tbs > 0 then ([GetTableInfoFailed tableName], Inl err)
           else tableDDLOf h dc db tableName tbs)
      | Inr tbs \<Rightarrow> tableDDLOf h dc db tableName tbs)"

section \<open>Grouped index rows\<close>

text \<open>
  What the grouping of index rows is meant to produce, in the words of the
  specification: the rows come as runs, one run per index, and every run is folded into
  one entry, the first row of the run with the column names of the run joined by commas.
  \<open>grouped key groups\<close> says that no run is empty, that the rows of a run share their index
  name, and that the name of a run differs from the name of the run before it (from
  \<open>key\<close>, for the first run).
\<close>

definition mergeGroup :: "Index list \<Rightarrow> Index" where
  "mergeGroup g = (hd g)\<lparr>Index.ColumnName := Join (map Index.ColumnName g) '',''\<rparr>"

fun grouped :: "string \<Rightarrow> Index list list \<Rightarrow> bool" where
  "grouped key [] = True"
| "grouped key (g # gs) =
     (g \<noteq> [] \<and> (\<forall>v \<in> set g. IndexName v = IndexName (hd g)) \<and> IndexName (hd g) \<noteq> key
      \<and> grouped (IndexName (hd g)) gs)"

section \<open>Sample data\<close>

text \<open>Sample columns and a sample connection, used where a concrete table is needed.\<close>

definition col_a :: Column where
  "col_a = \<lparr>Column.TableName = ''t'', Column.ColumnName = ''a'', DataType = ''int'', ColumnComment = [],
     Nullable = False, IsPrimaryKey = False, IsIdentity = False, ColumnDefault = [],
     CharMaxLength = 0, NumPrecision = 0, NumScale = 0\<rparr>"

definition col_b_pk :: Column where
  "col_b_pk = col_a\<lparr>Column.ColumnName := ''b'', IsPrimaryKey := True\<rparr>"

definition col_c_pk :: Column where
  "col_c_pk = col_a\<lparr>Column.ColumnName := ''c'', IsPrimaryKey := True\<rparr>"

definition idx_a :: Index where
  "idx_a = \<lparr>IndexName = ''uk_ab'', Index.ColumnName = ''a'', IndexType = ''NONCLUSTERED'',
     IndexComment = [], IsUnique = True, SeqInIndex = 1\<rparr>"

definition idx_b :: Index where
  "idx_b = idx_a\<lparr>Index.ColumnName := ''b'', SeqInIndex := 2\<rparr>"

definition idx_name :: Index where
  "idx_name = \<lparr>IndexName = ''idx_name'', Index.ColumnName = ''name'', IndexType = ''NONCLUSTERED'',
     IndexComment = [], IsUnique = False, SeqInIndex = 1\<rparr>"

definition rows_12 :: "anyv list list" where
  "rows_12 = [[VInt 1, VStr ''a''], [VInt 2, VStr ''b'']]"

text \<open>
  The sample connection is on database \<open>db/dbo\<close>, quotes identifiers with square
  brackets, answers every column, index and table query with the given outcome, and
  answers every statement with the given outcome, leaving the engine state alone.
\<close>

definition sampleConn ::
  "(string + Column list) \<Rightarrow> (string + Index list) \<Rightarrow> (string + Table list) \<Rightarrow> (string + int) \<Rightarrow> unit DbConn" where
  "sampleConn cols idxs tbls execResult =
     \<lparr>Database = ''db/dbo'',
      QuoteIdentifier = (\<lambda>s. ''['' @ s @ '']''),
      RemoveQuote = (\<lambda>s. s),
      TxExec = (\<lambda>db sql args. (db, execResult)),
      ColumnRows = (\<lambda>db k a. cols),
      IndexRows = (\<lambda>db k a. idxs),
      TableRows = (\<lambda>db k a. tbls)\<rparr>"

text \<open>
  A sample engine that keeps the names of the constraints installed on the table. Adding
  the constraint \<open>uniqueRows\<close> installs it, and is refused when it is installed already;
  dropping it removes it; every other statement affects as many rows as it has arguments.
  The index query answers with the given outcome.
\<close>

definition constraintEngine :: "(string + Index list) \<Rightarrow> (string list) DbConn" where
  "constraintEngine idxs =
     \<lparr>Database = ''db/dbo'',
      QuoteIdentifier = (\<lambda>s. ''['' @ s @ '']''),
      RemoveQuote = (\<lambda>s. s),
      TxExec = (\<lambda>db sql args.
         if sublist ''ADD CONSTRAINT uniqueRows'' sql then
           (if ''uniqueRows'' \<in> set db then (db, Inl ''There is already an object named uniqueRows'')
            else (db @ [''uniqueRows''], Inr 0))
         else if sublist ''DROP CONSTRAINT uniqueRows'' sql then (removeAll ''uniqueRows'' db, Inr 0)
         else (db, Inr (int (length args)))),
      ColumnRows = (\<lambda>db k a. Inr []),
      IndexRows = (\<lambda>db k a. idxs),
      TableRows = (\<lambda>db k a. Inr [])\<rparr>"

section \<open>Canonical type maps (MySQL)\<close>

text \<open>
  \<open>dbi.ColumnDataType\<close> and its \<open>CommonType...\<close> constants are declared outside the
  sources. The map literal \<open>mysqlColumnTypeMap\<close> uses twenty-one of them as keys, and Go
  rejects a map literal with two equal constant keys, so they are pairwise distinct: they
  are modelled as an enumeration.
\<close>

datatype ColumnDataType =
    CommonTypeVarchar | CommonTypeChar | CommonTypeText | CommonTypeBlob
  | CommonTypeLongblob | CommonTypeLongtext | CommonTypeBinary | CommonTypeMediumblob
  | CommonTypeMediumtext | CommonTypeVarbinary | CommonTypeInt | CommonTypeSmallint
  | CommonTypeTinyint | CommonTypeNumber | CommonTypeBigint | CommonTypeDatetime
  | CommonTypeDate | CommonTypeTime | CommonTypeTimestamp | CommonTypeEnum | CommonTypeJSON

definition commonColumnTypeMap :: "string \<rightharpoonup> ColumnDataType" where
  "commonColumnTypeMap = map_of
     [(''bigint'', CommonTypeBigint),
      (''binary'', CommonTypeBinary),
      (''blob'', CommonTypeBlob),
      (''char'', CommonTypeChar),
      (''datetime'', CommonTypeDatetime),
      (''date'', CommonTypeDate),
      (''decimal'', CommonTypeNumber),
      (''double'', CommonTypeNumber),
      (''enum'', CommonTypeEnum),
      (''float'', CommonTypeNumber),
      (''int'', CommonTypeInt),
      (''json'', CommonTypeJSON),
      (''longblob'', CommonTypeLongblob),
      (''longtext'', CommonTypeLongtext),
      (''mediumblob'', CommonTypeBlob),
      (''mediumtext'', CommonTypeText),
      (''set'', CommonTypeVarchar),
      (''smallint'', CommonTypeSmallint),
      (''text'', CommonTypeText),
      (''time'', CommonTypeTime),
      (''timestamp'', CommonTypeTimestamp),
      (''tinyint'', CommonTypeTinyint),
      (''varbinary'', CommonTypeVarbinary),
      (''varchar'', CommonTypeVarchar)]"

definition mysqlColumnTypeMap :: "ColumnDataType \<rightharpoonup> string" where
  "mysqlColumnTypeMap = map_of
     [(CommonTypeVarchar, ''varchar''),
      (CommonTypeChar, ''char''),
      (CommonTypeText, ''text''),
      (CommonTypeBlob, ''blob''),
      (CommonTypeLongblob, ''longblob''),
      (CommonTypeLongtext, ''longtext''),
      (CommonTypeBinary, ''binary''),
      (CommonTypeMediumblob, ''blob''),
      (CommonTypeMediumtext, ''text''),
      (CommonTypeVarbinary, ''varbinary''),
      (CommonTypeInt, ''int''),
      (CommonTypeSmallint, ''smallint''),
      (CommonTypeTinyint, ''tinyint''),
      (CommonTypeNumber, ''decimal''),
      (CommonTypeBigint, ''bigint''),
      (CommonTypeDatetime, ''datetime''),
      (CommonTypeDate, ''date''),
      (CommonTypeTime, ''time''),
      (CommonTypeTimestamp, ''timestamp''),
      (CommonTypeEnum, ''enum''),
      (CommonTypeJSON, ''json'')]"

section \<open>Data converter: ParseData\<close>

text \<open>
  \<open>dbi.DataType\<close>, the coarse kinds of the data converter (declared outside the sources).
\<close>

datatype DataType = DataTypeString | DataTypeNumber | DataTypeDate | DataTypeTime | DataTypeDateTime

text \<open>The layouts of Go's \<open>time\<close> package that the converters pass to \<open>time.Parse\<close>.\<close>

datatype layout = RFC3339 | DateTime | DateOnly | TimeOnly

text \<open>
  \<open>time.Parse\<close> belongs to Go's standard library and is a parameter: \<open>None\<close> stands for
  a returned error. On an error \<open>time.Parse\<close> returns the zero \<open>Time\<close>, which is what
  \<open>res, _ := time.Parse(...)\<close> keeps.
\<close>

definition parseRes :: "(layout \<Rightarrow> string \<Rightarrow> gotime option) \<Rightarrow> layout \<Rightarrow> string \<Rightarrow> gotime" where
  "parseRes timeParse l s = (case timeParse l s of Some t \<Rightarrow> t | None \<Rightarrow> zeroTime)"

text \<open>The type assertion \<open>_, ok := dbColumnValue.(string)\<close>.\<close>

fun isString :: "anyv \<Rightarrow> bool" where
  "isString (VStr s) = True"
| "isString v = False"

text \<open>\<open>anyx.ToString\<close> on a value whose dynamic type is \<open>string\<close> (the only use here).\<close>

fun ToString :: "anyv \<Rightarrow> string" where
  "ToString (VStr s) = s"
| "ToString v = []"

definition mssql_ParseData :: "(layout \<Rightarrow> string \<Rightarrow> gotime option) \<Rightarrow> anyv \<Rightarrow> DataType \<Rightarrow> anyv" where
  "mssql_ParseData timeParse dbColumnValue dataType =
     (let ok = isString dbColumnValue in
      if dataType = DataTypeDateTime \<and> ok then VTime (parseRes timeParse RFC3339 (ToString dbColumnValue))
      else if dataType = DataTypeDate \<and> ok then VTime (parseRes timeParse DateOnly (ToString dbColumnValue))
      else if dataType = DataTypeTime \<and> ok then VTime (parseRes timeParse TimeOnly (ToString dbColumnValue))
      else dbColumnValue)"

definition mysql_ParseData :: "(layout \<Rightarrow> string \<Rightarrow> gotime option) \<Rightarrow> anyv \<Rightarrow> DataType \<Rightarrow> anyv" where
  "mysql_ParseData timeParse dbColumnValue dataType =
     (let ok = isString dbColumnValue in
      if ok then
        (if dataType = DataTypeDateTime then VTime (parseRes timeParse DateTime (ToString dbColumnValue))
         else if dataType = DataTypeDate then VTime (parseRes timeParse DateOnly (ToString dbColumnValue))
         else if dataType = DataTypeTime then VTime (parseRes timeParse TimeOnly (ToString dbColumnValue))
         else dbColumnValue)
      else dbColumnValue)"

section \<open>Theorems\<close>

lemma firstPrimaryKey_None: "firstPrimaryKey cs = None \<longleftrightarrow> (\<forall>c \<in> set cs. \<not> IsPrimaryKey c)"
  by (induction cs) auto

lemma firstPrimaryKey_Some:
  "firstPrimaryKey cs = Some n \<longleftrightarrow>
     (\<exists>i < length cs. IsPrimaryKey (cs ! i) \<and> (\<forall>j < i. \<not> IsPrimaryKey (cs ! j)) \<and> n = Column.ColumnName (cs ! i))"
proof (induction cs)
  case Nil
  show ?case by simp
next
  case (Cons c cs)
  show ?case
  proof (cases "IsPrimaryKey c")
    case True
    have "(\<exists>i < length (c # cs). IsPrimaryKey ((c # cs) ! i) \<and> (\<forall>j < i. \<not> IsPrimaryKey ((c # cs) ! j))
            \<and> n = Column.ColumnName ((c # cs) ! i)) \<longleftrightarrow> n = Column.ColumnName c"
    proof
      assume "\<exists>i < length (c # cs). IsPrimaryKey ((c # cs) ! i) \<and> (\<forall>j < i. \<not> IsPrimaryKey ((c # cs) ! j))
            \<and> n = Column.ColumnName ((c # cs) ! i)"
      then obtain i where i: "IsPrimaryKey ((c # cs) ! i)" "\<forall>j < i. \<not> IsPrimaryKey ((c # cs) ! j)"
        "n = Column.ColumnName ((c # cs) ! i)" by blast
      have "i = 0"
      proof (rule ccontr)
        assume "i \<noteq> 0"
        then have "0 < i" by simp
        with i(2) have "\<not> IsPrimaryKey ((c # cs) ! 0)" by blast
        with True show False by simp
      qed
      with i(3) show "n = Column.ColumnName c" by simp
    next
      assume "n = Column.ColumnName c"
      with True show "\<exists>i < length (c # cs). IsPrimaryKey ((c # cs) ! i) \<and> (\<forall>j < i. \<not> IsPrimaryKey ((c # cs) ! j))
            \<and> n = Column.ColumnName ((c # cs) ! i)"
        by (intro exI[of _ 0]) simp
    qed
    with True show ?thesis by auto
  next
    case False
    have "(\<exists>i < length (c # cs). IsPrimaryKey ((c # cs) ! i) \<and> (\<forall>j < i. \<not> IsPrimaryKey ((c # cs) ! j))
            \<and> n = Column.ColumnName ((c # cs) ! i)) \<longleftrightarrow>
          (\<exists>i < length cs. IsPrimaryKey (cs ! i) \<and> (\<forall>j < i. \<not> IsPrimaryKey (cs ! j)) \<and> n = Column.ColumnName (cs ! i))"
      (is "?L \<longleftrightarrow> ?R")
    proof
      assume ?L
      then obtain i where i: "i < length (c # cs)" "IsPrimaryKey ((c # cs) ! i)"
        "\<forall>j < i. \<not> IsPrimaryKey ((c # cs) ! j)" "n = Column.ColumnName ((c # cs) ! i)" by blast
      from i(2) False have "i \<noteq> 0" by (cases i) auto
      then obtain k where k: "i = Suc k" by (cases i) auto
      have "\<forall>j < k. \<not> IsPrimaryKey (cs ! j)"
      proof (intro allI impI)
        fix j assume "j < k"
        then have "Suc j < i" using k by simp
        with i(3) have "\<not> IsPrimaryKey ((c # cs) ! Suc j)" by blast
        then show "\<not> IsPrimaryKey (cs ! j)" by simp
      qed
      with i k show ?R by (intro exI[of _ k]) simp
    next
      assume ?R
      then obtain k where k: "k < length cs" "IsPrimaryKey (cs ! k)"
        "\<forall>j < k. \<not> IsPrimaryKey (cs ! j)" "n = Column.ColumnName (cs ! k)" by blast
      have "\<forall>j < Suc k. \<not> IsPrimaryKey ((c # cs) ! j)"
      proof (intro allI impI)
        fix j assume "j < Suc k"
        then show "\<not> IsPrimaryKey ((c # cs) ! j)"
          using False k(3) by (cases j) auto
      qed
      with k show ?L by (intro exI[of _ "Suc k"]) simp
    qed
    with False Cons.IH show ?thesis by simp
  qed
qed


subsection \<open>The recording connection\<close>

lemma recording_simps:
  "Database (recording dc) = Database dc"
  "QuoteIdentifier (recording dc) = QuoteIdentifier dc"
  "RemoveQuote (recording dc) = RemoveQuote dc"
  "TxExec (recording dc) (db, tr) sql args = ((fst (TxExec dc db sql args), tr @ [(sql, args)]), snd (TxExec dc db sql args))"
  "ColumnRows (recording dc) (db, tr) = ColumnRows dc db"
  "IndexRows (recording dc) (db, tr) = IndexRows dc db"
  "TableRows (recording dc) (db, tr) = TableRows dc db"
  by (simp_all add: recording_def split: prod.splits)

lemma currentSchema_recording: "currentSchema (recording dc) = currentSchema dc"
  by (simp add: currentSchema_def recording_simps)

lemma getTableIndexWithPK_recording:
  "getTableIndexWithPK (recording dc) (db, tr) t = getTableIndexWithPK dc db t"
  by (simp add: getTableIndexWithPK_def recording_simps currentSchema_recording)

lemma mssql_GetColumns_recording:
  "mssql_GetColumns (recording dc) (db, tr) ts = mssql_GetColumns dc db ts"
  by (simp add: mssql_GetColumns_def recording_simps currentSchema_recording)

lemma insertSqlStr_recording:
  "insertSqlStr (recording dc) sch t cols n = insertSqlStr dc sch t cols n"
  by (simp add: insertSqlStr_def recording_simps)

subsection \<open>Placeholders and statement texts\<close>

lemma Repeat_Suc: "Repeat s (Suc n) = s @ Repeat s n"
  by (simp add: Repeat_def)

lemma Repeat_sep_Join:
  "Repeat (s @ sep) (Suc n) = Join (replicate (Suc n) s) sep @ sep"
proof (induction n)
  case 0
  show ?case by (simp add: Repeat_def)
next
  case (Suc n)
  have "Repeat (s @ sep) (Suc (Suc n)) = s @ sep @ Repeat (s @ sep) (Suc n)"
    by (simp add: Repeat_Suc)
  also have "\<dots> = s @ sep @ Join (replicate (Suc n) s) sep @ sep"
    using Suc.IH by simp
  also have "\<dots> = Join (replicate (Suc (Suc n)) s) sep @ sep"
    by simp
  finally show ?case .
qed

lemma TrimSuffix_append: "TrimSuffix (x @ suf) suf = x"
  by (simp add: TrimSuffix_def suffix_def)

lemma TrimSuffix_Repeat:
  "TrimSuffix (Repeat (s @ '','') n) '','' = Join (replicate n s) '',''"
proof (cases n)
  case 0
  then show ?thesis by (simp add: Repeat_def TrimSuffix_def)
next
  case (Suc m)
  then show ?thesis by (simp only: Repeat_sep_Join TrimSuffix_append)
qed

lemma TrimSuffix_Repeat_q:
  "TrimSuffix (Repeat ''?,'' n) '','' = Join (replicate n ''?'') '',''"
  using TrimSuffix_Repeat [of "''?''" n] by simp

lemma insertSqlStr_eq:
  "insertSqlStr dc sch t columns n =
     ''insert into '' @ QuoteIdentifier dc sch @ ''.'' @ QuoteIdentifier dc t @ '' ('' @ Join columns '',''
       @ '') values '' @ Join (replicate n (''('' @ Join (replicate (length columns) ''?'') '','' @ '')'')) '',''"
  by (simp add: insertSqlStr_def Let_def TrimSuffix_Repeat TrimSuffix_Repeat_q)

lemma count_Join_replicate:
  "length (filter P (Join (replicate n s) sep)) = n * length (filter P s) + (n - 1) * length (filter P sep)"
proof (induction n)
  case 0
  show ?case by simp
next
  case (Suc n)
  show ?case
  proof (cases n)
    case 0
    then show ?thesis by simp
  next
    case (Suc m)
    then have "Join (replicate (Suc n) s) sep = s @ sep @ Join (replicate n s) sep" by simp
    with Suc.IH Suc show ?thesis by simp
  qed
qed

lemma placeholder_count:
  "length (filter (\<lambda>c. c = CHR ''?'') (Join (replicate n (''('' @ Join (replicate m ''?'') '','' @ '')'')) '','')) = n * m"
  by (simp add: count_Join_replicate)

lemma setIgnoreDupKey_other:
  "s \<noteq> DuplicateStrategyIgnore \<Longrightarrow> setIgnoreDupKey dc db sch t s = Inr (db, [])"
  by (simp add: setIgnoreDupKey_def)

lemma batchInsertSimple_other:
  assumes "s \<noteq> DuplicateStrategyIgnore"
  shows "batchInsertSimple dc db t columns vals s =
     (let stmt = ''SET IDENTITY_INSERT ['' @ currentSchema dc @ ''].['' @ t @ ''] ON ''
                   @ insertSqlStr dc (currentSchema dc) t columns (length vals);
          r = TxExec dc db stmt (concat vals)
      in (fst r, case snd r of Inl err \<Rightarrow> Inl (QueryError err) | Inr n \<Rightarrow> Inr n))"
  using assms
  by (simp add: batchInsertSimple_def setIgnoreDupKey_other Let_def split: prod.splits)

lemma BatchInsert_other_recorded:
  assumes "s \<noteq> DuplicateStrategyIgnore" and "s \<noteq> DuplicateStrategyUpdate"
  shows "BatchInsert (recording dc) (db, []) t columns vals s =
     (let stmt = ''SET IDENTITY_INSERT ['' @ currentSchema dc @ ''].['' @ t @ ''] ON ''
                   @ insertSqlStr dc (currentSchema dc) t columns (length vals);
          r = TxExec dc db stmt (concat vals)
      in ((fst r, [(stmt, concat vals)]), [],
          case snd r of Inl err \<Rightarrow> Inl (QueryError err) | Inr n \<Rightarrow> Inr n))"
  using assms
  by (simp add: BatchInsert_def batchInsertSimple_other currentSchema_recording insertSqlStr_recording
      recording_simps Let_def)

lemma batchInsertMerge_no_pk:
  assumes "mssql_GetColumns dc db [t] = Inr cols" and "\<forall>c \<in> set cols. \<not> IsPrimaryKey c"
  shows "batchInsertMerge dc db t columns vals DuplicateStrategyUpdate
      = (let (db', r) = batchInsertSimple dc db t columns vals DuplicateStrategyNone in (db', [], r))"
proof -
  have "filter IsPrimaryKey cols = []" using assms(2) by (simp add: filter_empty_conv)
  then show ?thesis
    using assms(1) by (simp add: batchInsertMerge_def batchInsertSimple_other)
qed

lemma ignoreDupSqlText_nonempty: "ignoreDupSqlText sch t ucs \<noteq> []"
  by (simp add: ignoreDupSqlText_def)

lemma setIgnoreDupKey_Ignore:
  assumes "getTableIndexWithPK dc db t = Inr indexs" and "collectUniqueColumns [] indexs \<noteq> []"
  shows "setIgnoreDupKey dc db sch t DuplicateStrategyIgnore =
     Inr (fst (TxExec dc db (ReplaceAll (ignoreDupSqlText sch t (collectUniqueColumns [] indexs)) ''{sign}'' ''ON'') []),
          ignoreDupSqlText sch t (collectUniqueColumns [] indexs))"
  using assms by (simp add: setIgnoreDupKey_def Let_def)

lemma ReplaceAll_sign:
  "CHR ''{'' \<notin> set a \<Longrightarrow> ReplaceAll (a @ ''{sign})'') ''{sign}'' new = a @ new @ '')''"
  by (induction a) auto

lemma ignoreDupSqlText_sign:
  assumes "CHR ''{'' \<notin> set (sch @ t @ Join ucs '','')"
  shows "ReplaceAll (ignoreDupSqlText sch t ucs) ''{sign}'' new =
     ''ALTER TABLE '' @ sch @ ''.'' @ t @ '' ADD CONSTRAINT uniqueRows UNIQUE ('' @ Join ucs '',''
       @ '') WITH (IGNORE_DUP_KEY = '' @ new @ '')''"
proof -
  let ?a = "''ALTER TABLE '' @ sch @ ''.'' @ t @ '' ADD CONSTRAINT uniqueRows UNIQUE ('' @ Join ucs '',''
       @ '') WITH (IGNORE_DUP_KEY = ''"
  have "CHR ''{'' \<notin> set ?a" using assms by simp
  from ReplaceAll_sign [OF this, of new]
  show ?thesis by (simp add: ignoreDupSqlText_def)
qed

subsection \<open>Grouping of index rows\<close>

lemma Join_Cons: "Join (x # xs) sep = x @ concat (map (\<lambda>y. sep @ y) xs)"
  by (induction xs arbitrary: x) simp_all

lemma list_update_last: "res \<noteq> [] \<Longrightarrow> res[length res - Suc 0 := x] = butlast res @ [x]"
  by (induction res rule: rev_induct) simp_all

lemma groupIndexs_same_key:
  assumes "res \<noteq> []" and "\<forall>v \<in> set g. IndexName v = key"
  shows "groupIndexs key res (g @ rest) =
     groupIndexs key
       (butlast res @ [(last res)\<lparr>Index.ColumnName :=
            Index.ColumnName (last res) @ concat (map (\<lambda>v. '','' @ Index.ColumnName v) g)\<rparr>])
       rest"
  using assms
proof (induction g arbitrary: res)
  case Nil
  then show ?case by simp
next
  case (Cons v g)
  let ?x = "(last res)\<lparr>Index.ColumnName := Index.ColumnName (last res) @ '','' @ Index.ColumnName v\<rparr>"
  have k: "key = IndexName v" using Cons.prems(2) by simp
  have l: "res ! (length res - 1) = last res" using Cons.prems(1) by (simp add: last_conv_nth)
  have "groupIndexs key res ((v # g) @ rest) = groupIndexs key (res[length res - 1 := ?x]) (g @ rest)"
    using Cons.prems(1) k l by (simp add: Let_def)
  also have "\<dots> = groupIndexs key (butlast res @ [?x]) (g @ rest)"
    using Cons.prems(1) by (simp add: list_update_last)
  also have "\<dots> = groupIndexs key
       (butlast (butlast res @ [?x]) @ [(last (butlast res @ [?x]))\<lparr>Index.ColumnName :=
            Index.ColumnName (last (butlast res @ [?x])) @ concat (map (\<lambda>v. '','' @ Index.ColumnName v) g)\<rparr>])
       rest"
    using Cons.prems(2) by (intro Cons.IH) simp_all
  finally show ?case by simp
qed

lemma mergeGroup_Cons:
  "butlast (res @ [v]) @ [(last (res @ [v]))\<lparr>Index.ColumnName :=
       Index.ColumnName (last (res @ [v])) @ concat (map (\<lambda>v. '','' @ Index.ColumnName v) g')\<rparr>]
     = res @ [mergeGroup (v # g')]"
  by (simp add: mergeGroup_def Join_Cons comp_def)

lemma groupIndexs_group:
  assumes "g \<noteq> []" and "\<forall>v \<in> set g. IndexName v = IndexName (hd g)" and "IndexName (hd g) \<noteq> key"
  shows "groupIndexs key res (g @ rest) = groupIndexs (IndexName (hd g)) (res @ [mergeGroup g]) rest"
proof -
  from assms(1) obtain v g' where g: "g = v # g'" by (cases g) auto
  have same: "\<forall>x \<in> set g'. IndexName x = IndexName v"
    using assms(2) g by simp
  have "groupIndexs key res (g @ rest) = groupIndexs (IndexName v) (res @ [v]) (g' @ rest)"
    using assms(3) g by (simp add: Let_def)
  also have "\<dots> = groupIndexs (IndexName v)
       (butlast (res @ [v]) @ [(last (res @ [v]))\<lparr>Index.ColumnName :=
            Index.ColumnName (last (res @ [v])) @ concat (map (\<lambda>v. '','' @ Index.ColumnName v) g')\<rparr>])
       rest"
    by (rule groupIndexs_same_key [OF _ same]) simp
  also have "\<dots> = groupIndexs (IndexName v) (res @ [mergeGroup (v # g')]) rest"
    by (simp only: mergeGroup_Cons)
  finally show ?thesis
    using g by simp
qed

lemma groupIndexs_grouped:
  "grouped key groups \<Longrightarrow> groupIndexs key res (concat groups) = Inr (res @ map mergeGroup groups)"
proof (induction groups arbitrary: key res)
  case Nil
  show ?case by simp
next
  case (Cons g gs)
  have p1: "g \<noteq> []" using Cons.prems unfolding grouped.simps by blast
  have p2: "\<forall>v \<in> set g. IndexName v = IndexName (hd g)" using Cons.prems unfolding grouped.simps by blast
  have p3: "IndexName (hd g) \<noteq> key" using Cons.prems unfolding grouped.simps by blast
  have p4: "grouped (IndexName (hd g)) gs" using Cons.prems unfolding grouped.simps by blast
  have "groupIndexs key res (concat (g # gs)) = groupIndexs key res (g @ concat gs)"
    by simp
  also have "\<dots> = groupIndexs (IndexName (hd g)) (res @ [mergeGroup g]) (concat gs)"
    by (rule groupIndexs_group [OF p1 p2 p3])
  also have "\<dots> = Inr ((res @ [mergeGroup g]) @ map mergeGroup gs)"
    by (rule Cons.IH [OF p4])
  also have "\<dots> = Inr (res @ map mergeGroup (g # gs))"
    by simp
  finally show ?case .
qed

text \<open>
  On rows that come in runs by index name (the first name not empty), the MySQL
  \<open>GetTableIndex\<close> returns one entry per run, with the column names of the run joined by
  commas in the order of the rows. \<open>getTableIndexWithPK\<close> on the same rows returns the
  rows themselves.
\<close>

lemma mysql_GetTableIndex_grouped:
  assumes "IndexRows dc db MYSQL_INDEX_INFO_KEY [t] = Inr (concat groups)" and "grouped [] groups"
  shows "mysql_GetTableIndex dc db t = Inr (map mergeGroup groups)"
  using assms(1) groupIndexs_grouped [OF assms(2), of "[]"]
  by (simp add: mysql_GetTableIndex_def)

lemma getTableIndexWithPK_rows:
  assumes "IndexRows dc db MSSQL_INDEX_INFO_KEY [currentSchema dc, t] = Inr (concat groups)" and "grouped [] groups"
  shows "getTableIndexWithPK dc db t = Inr (concat groups)"
  using assms(1) groupIndexs_grouped [OF assms(2), of "[]"]
  by (simp add: getTableIndexWithPK_def)

lemma skipPKIndexs_result: "skipPKIndexs result indexs = result"
  by (induction indexs) (simp_all add: Let_def)

lemma mssql_GetTableIndex_never_lists:
  "mssql_GetTableIndex dc db t = Inr xs \<Longrightarrow> xs = []"
  by (auto simp: mssql_GetTableIndex_def skipPKIndexs_result split: sum.splits error.splits)

text \<open>
  The statements of strategy Ignore, whatever the engine answers: the
  \<open>ALTER TABLE ... ADD CONSTRAINT uniqueRows\<close> text with \<open>{sign}\<close> replaced by \<open>ON\<close>,
  the insert, and the same text with \<open>{sign}\<close> replaced by \<open>OFF\<close>; the call returns the
  outcome of the insert.
\<close>

lemma BatchInsert_Ignore_recorded:
  assumes "getTableIndexWithPK dc db t = Inr indexs"
    and "collectUniqueColumns [] indexs \<noteq> []"
  shows "BatchInsert (recording dc) (db, []) t columns vals DuplicateStrategyIgnore =
     (let sql = ignoreDupSqlText (currentSchema dc) t (collectUniqueColumns [] indexs);
          on = ReplaceAll sql ''{sign}'' ''ON'';
          off = ReplaceAll sql ''{sign}'' ''OFF'';
          stmt = ''SET IDENTITY_INSERT ['' @ currentSchema dc @ ''].['' @ t @ ''] ON ''
                   @ insertSqlStr dc (currentSchema dc) t columns (length vals);
          db1 = fst (TxExec dc db on []);
          r = TxExec dc db1 stmt (concat vals);
          db3 = fst (TxExec dc (fst r) off [])
      in ((db3, [(on, []), (stmt, concat vals), (off, [])]), [],
          case snd r of Inl err \<Rightarrow> Inl (QueryError err) | Inr n \<Rightarrow> Inr n))"
proof -
  have g: "getTableIndexWithPK (recording dc) (db, []) t = Inr indexs"
    using assms(1) by (simp add: getTableIndexWithPK_recording)
  show ?thesis
    by (simp add: BatchInsert_def batchInsertSimple_def setIgnoreDupKey_Ignore [OF g assms(2)]
        currentSchema_recording insertSqlStr_recording recording_simps ignoreDupSqlText_nonempty Let_def
        split: prod.splits)
qed

section \<open>The claims\<close>

text \<open>
  C1. With strategy Ignore the temporary constraint is to be absent again after the call.
  On a table with the unique index \<open>uk_ab\<close> over \<open>a\<close> and \<open>b\<close> the statements executed are
  the three below: the statement after the insert adds the constraint \<open>uniqueRows\<close> once
  more, with \<open>IGNORE_DUP_KEY = OFF\<close>, and none of the three is a \<open>DROP\<close>. On the sample
  engine, where no constraint is installed before the call, \<open>uniqueRows\<close> is installed
  after it (the second \<open>ADD CONSTRAINT\<close> is refused and the refusal is dropped).
\<close>

theorem BatchInsert_Ignore_constraint_remains:
  "fst (BatchInsert (recording (sampleConn (Inr []) (Inr [idx_a, idx_b]) (Inr []) (Inr 2))) ((), [])
        ''t'' [''id'', ''name''] rows_12 DuplicateStrategyIgnore)
   = ((), [(''ALTER TABLE dbo.t ADD CONSTRAINT uniqueRows UNIQUE (a,b) WITH (IGNORE_DUP_KEY = ON)'', []),
      (''SET IDENTITY_INSERT [dbo].[t] ON insert into [dbo].[t] (id,name) values (?,?),(?,?)'',
       [VInt 1, VStr ''a'', VInt 2, VStr ''b'']),
      (''ALTER TABLE dbo.t ADD CONSTRAINT uniqueRows UNIQUE (a,b) WITH (IGNORE_DUP_KEY = OFF)'', [])])
   \<and> map (dropsConstraint \<circ> fst)
         (snd (fst (BatchInsert (recording (sampleConn (Inr []) (Inr [idx_a, idx_b]) (Inr []) (Inr 2))) ((), [])
            ''t'' [''id'', ''name''] rows_12 DuplicateStrategyIgnore)))
       = [False, False, False]
   \<and> BatchInsert (constraintEngine (Inr [idx_a, idx_b])) [] ''t'' [''id'', ''name''] rows_12 DuplicateStrategyIgnore
       = ([''uniqueRows''], [], Inr 4)"
  by code_simp

text \<open>
  C2 (as amended). For every list of columns and every row matrix, a batch insert with
  strategy None executes exactly one statement: \<open>SET IDENTITY_INSERT [schema].[table] ON\<close>
  followed, in the same statement, by one multi-row \<open>INSERT\<close> with one parenthesised
  group of \<open>len(columns)\<close> placeholders per row, bound to the rows flattened in row-major
  order. The outcome of that statement is the outcome of the call. Nothing is executed
  after it.
\<close>

theorem BatchInsert_None_one_statement:
  "BatchInsert (recording dc) (db, []) t columns vals DuplicateStrategyNone =
     (let stmt = ''SET IDENTITY_INSERT ['' @ currentSchema dc @ ''].['' @ t @ ''] ON ''
                   @ insertSqlStr dc (currentSchema dc) t columns (length vals);
          r = TxExec dc db stmt (concat vals)
      in ((fst r, [(stmt, concat vals)]), [],
          case snd r of Inl err \<Rightarrow> Inl (QueryError err) | Inr n \<Rightarrow> Inr n))
   \<and> insertSqlStr dc sch t columns n =
       ''insert into '' @ QuoteIdentifier dc sch @ ''.'' @ QuoteIdentifier dc t @ '' ('' @ Join columns '',''
         @ '') values '' @ Join (replicate n (''('' @ Join (replicate (length columns) ''?'') '','' @ '')'')) '',''
   \<and> length (filter (\<lambda>c. c = CHR ''?'')
         (Join (replicate n (''('' @ Join (replicate (length columns) ''?'') '','' @ '')'')) '','')) = n * length columns"
proof (intro conjI)
  show "BatchInsert (recording dc) (db, []) t columns vals DuplicateStrategyNone =
     (let stmt = ''SET IDENTITY_INSERT ['' @ currentSchema dc @ ''].['' @ t @ ''] ON ''
                   @ insertSqlStr dc (currentSchema dc) t columns (length vals);
          r = TxExec dc db stmt (concat vals)
      in ((fst r, [(stmt, concat vals)]), [],
          case snd r of Inl err \<Rightarrow> Inl (QueryError err) | Inr n \<Rightarrow> Inr n))"
    by (simp add: BatchInsert_other_recorded)
next
  show "insertSqlStr dc sch t columns n =
       ''insert into '' @ QuoteIdentifier dc sch @ ''.'' @ QuoteIdentifier dc t @ '' ('' @ Join columns '',''
         @ '') values '' @ Join (replicate n (''('' @ Join (replicate (length columns) ''?'') '','' @ '')'')) '',''"
    by (rule insertSqlStr_eq)
next
  show "length (filter (\<lambda>c. c = CHR ''?'')
         (Join (replicate n (''('' @ Join (replicate (length columns) ''?'') '','' @ '')'')) '','')) = n * length columns"
    by (rule placeholder_count)
qed

text \<open>
  C2 as stated does not hold: for the columns \<open>id\<close>, \<open>name\<close> and the rows \<open>(1, a)\<close>,
  \<open>(2, b)\<close> the only statement executed is the one below; there is no statement that
  sets identity insert off.
\<close>

theorem BatchInsert_None_no_off_statement:
  "fst (BatchInsert (recording (sampleConn (Inr []) (Inr []) (Inr []) (Inr 2))) ((), [])
        ''t'' [''id'', ''name''] rows_12 DuplicateStrategyNone)
   = ((), [(''SET IDENTITY_INSERT [dbo].[t] ON insert into [dbo].[t] (id,name) values (?,?),(?,?)'',
       [VInt 1, VStr ''a'', VInt 2, VStr ''b''])])"
  by code_simp

text \<open>
  C3. The fold of the index rows is to return one entry per index name, with the column
  names joined by commas. On the two rows of the index \<open>uk_ab\<close> (columns \<open>a\<close> and \<open>b\<close>)
  the MySQL \<open>GetTableIndex\<close> returns the one entry with \<open>a,b\<close>, while
  \<open>getTableIndexWithPK\<close> of the SQL Server driver returns the two rows as they came.
\<close>

theorem getTableIndexWithPK_not_grouped:
  "getTableIndexWithPK (sampleConn (Inr []) (Inr [idx_a, idx_b]) (Inr []) (Inr 0)) () ''t'' = Inr [idx_a, idx_b]
   \<and> mysql_GetTableIndex (sampleConn (Inr []) (Inr [idx_a, idx_b]) (Inr []) (Inr 0)) () ''t''
       = Inr [idx_a\<lparr>Index.ColumnName := ''a,b''\<rparr>]"
  by (simp add: getTableIndexWithPK_def mysql_GetTableIndex_def sampleConn_def idx_a_def idx_b_def)

text \<open>
  C4. \<open>GetTableIndex\<close> of the SQL Server driver is to return the indexes whose name does
  not start with \<open>PK__\<close>. On a table whose only index is \<open>idx_name\<close> it returns the
  empty list, although the index rows hold that index.
\<close>

theorem mssql_GetTableIndex_empty:
  "mssql_GetTableIndex (sampleConn (Inr []) (Inr [idx_name]) (Inr []) (Inr 0)) () ''t'' = Inr []
   \<and> getTableIndexWithPK (sampleConn (Inr []) (Inr [idx_name]) (Inr []) (Inr 0)) () ''t'' = Inr [idx_name]
   \<and> \<not> HasPrefix (IndexName idx_name) ''PK__''"
  by (simp add: mssql_GetTableIndex_def getTableIndexWithPK_def sampleConn_def idx_name_def HasPrefix_def)

text \<open>
  C5. In the merge strategy a failure of the column introspection is to be surfaced. When
  the column query fails with \<open>connection refused\<close> and the engine accepts statements,
  the batch insert with strategy Update executes the plain insert and returns its row
  count, with no error. (A failure of the merge statement itself is returned with the
  text of the error only, and the statement is written to the log: third part.)
\<close>

theorem merge_column_error_not_surfaced:
  "mssql_GetColumns (sampleConn (Inl ''connection refused'') (Inr []) (Inr []) (Inr 2)) () [''t'']
       = Inl (QueryError ''connection refused'')
   \<and> BatchInsert (recording (sampleConn (Inl ''connection refused'') (Inr []) (Inr []) (Inr 2))) ((), [])
        ''t'' [''id'', ''name''] rows_12 DuplicateStrategyUpdate
       = (((), [(''SET IDENTITY_INSERT [dbo].[t] ON insert into [dbo].[t] (id,name) values (?,?),(?,?)'',
                 [VInt 1, VStr ''a'', VInt 2, VStr ''b''])]), [], Inr 2)
   \<and> BatchInsert (sampleConn (Inr [col_a, col_b_pk]) (Inr []) (Inr []) (Inl ''boom'')) ()
        ''t'' [''a'', ''b''] rows_12 DuplicateStrategyUpdate
       = ((), [ExecSqlFailed ''boom''
                 ''MERGE INTO [dbo].[t] T1 USING (select ? a,? b UNION ALL select ? a,? b) T2 ON  T1.[b] = T2.[b] WHEN NOT MATCHED THEN INSERT (a,b) VALUES (T2.a,T2.b) WHEN MATCHED THEN UPDATE SET T1.a = T2.a,T1.b = T2.b''],
          Inl (QueryError ''boom''))"
  by code_simp

text \<open>
  C6. For a batch insert with strategy Update on a table none of whose columns is flagged
  primary key, the call gives what the same call with strategy None gives (engine state,
  log, rows affected or error), and the one statement it executes is the plain insert:
  no merge statement is built.
\<close>

theorem Update_without_primary_key:
  assumes "mssql_GetColumns dc db [t] = Inr cols"
    and "\<forall>c \<in> set cols. \<not> IsPrimaryKey c"
  shows "BatchInsert dc db t columns vals DuplicateStrategyUpdate
           = BatchInsert dc db t columns vals DuplicateStrategyNone
   \<and> snd (fst (BatchInsert (recording dc) (db, []) t columns vals DuplicateStrategyUpdate))
       = [(''SET IDENTITY_INSERT ['' @ currentSchema dc @ ''].['' @ t @ ''] ON ''
             @ insertSqlStr dc (currentSchema dc) t columns (length vals), concat vals)]"
proof
  show "BatchInsert dc db t columns vals DuplicateStrategyUpdate
           = BatchInsert dc db t columns vals DuplicateStrategyNone"
    by (simp add: BatchInsert_def batchInsertMerge_no_pk [OF assms])
next
  have c: "mssql_GetColumns (recording dc) (db, []) [t] = Inr cols"
    using assms(1) by (simp add: mssql_GetColumns_recording)
  have "BatchInsert (recording dc) (db, []) t columns vals DuplicateStrategyUpdate
      = BatchInsert (recording dc) (db, []) t columns vals DuplicateStrategyNone"
    by (simp add: BatchInsert_def batchInsertMerge_no_pk [OF c assms(2)])
  then show "snd (fst (BatchInsert (recording dc) (db, []) t columns vals DuplicateStrategyUpdate))
       = [(''SET IDENTITY_INSERT ['' @ currentSchema dc @ ''].['' @ t @ ''] ON ''
             @ insertSqlStr dc (currentSchema dc) t columns (length vals), concat vals)]"
    by (simp add: BatchInsert_other_recorded Let_def)
qed

theorem Update_without_primary_key_witness:
  "mssql_GetColumns (sampleConn (Inr [col_a]) (Inr []) (Inr []) (Inr 2)) () [''t''] = Inr [col_a]
   \<and> \<not> IsPrimaryKey col_a
   \<and> BatchInsert (sampleConn (Inr [col_a]) (Inr []) (Inr []) (Inr 2)) () ''t'' [''id'', ''name''] rows_12 DuplicateStrategyUpdate
       = BatchInsert (sampleConn (Inr [col_a]) (Inr []) (Inr []) (Inr 2)) () ''t'' [''id'', ''name''] rows_12 DuplicateStrategyNone
   \<and> snd (fst (BatchInsert (recording (sampleConn (Inr [col_a]) (Inr []) (Inr []) (Inr 2))) ((), []) ''t''
          [''id'', ''name''] rows_12 DuplicateStrategyUpdate))
       = [(''SET IDENTITY_INSERT [dbo].[t] ON insert into [dbo].[t] (id,name) values (?,?),(?,?)'',
           [VInt 1, VStr ''a'', VInt 2, VStr ''b''])]"
proof -
  have h1: "mssql_GetColumns (sampleConn (Inr [col_a]) (Inr []) (Inr []) (Inr 2)) () [''t''] = Inr [col_a]"
    by (simp add: mssql_GetColumns_def sampleConn_def)
  have h2: "\<forall>c \<in> set [col_a]. \<not> IsPrimaryKey c"
    by (simp add: col_a_def)
  have e: "''SET IDENTITY_INSERT ['' @ currentSchema (sampleConn (Inr [col_a]) (Inr []) (Inr []) (Inr 2)) @ ''].['' @ ''t'' @ ''] ON ''
             @ insertSqlStr (sampleConn (Inr [col_a]) (Inr []) (Inr []) (Inr 2))
                 (currentSchema (sampleConn (Inr [col_a]) (Inr []) (Inr []) (Inr 2))) ''t'' [''id'', ''name''] (length rows_12)
           = ''SET IDENTITY_INSERT [dbo].[t] ON insert into [dbo].[t] (id,name) values (?,?),(?,?)''"
    by code_simp
  have a: "concat rows_12 = [VInt 1, VStr ''a'', VInt 2, VStr ''b'']"
    by (simp add: rows_12_def)
  from Update_without_primary_key [OF h1 h2, of "[''id'', ''name'']" rows_12]
  show ?thesis using h1 h2 by (simp only: e a simp_thms list.set ball_simps)
qed

text \<open>
  C7. \<open>GetPrimaryKey\<close> of either driver fails with \<open>TableNotFound\<close> exactly when the
  column introspection yields zero columns. Otherwise it returns the name of the first
  column flagged primary key, in the order of the introspection result; when no column is
  flagged it returns the name of the first column, and raises nothing.
\<close>

theorem GetPrimaryKey_spec:
  "((\<exists>t. mssql_GetPrimaryKey dc db tn = Inl (TableNotFound t)) \<longleftrightarrow> mssql_GetColumns dc db [tn] = Inr [])
   \<and> ((\<exists>t. mysql_GetPrimaryKey dc db tn = Inl (TableNotFound t)) \<longleftrightarrow> mysql_GetColumns dc db [tn] = Inr [])
   \<and> (i < length cols \<and> IsPrimaryKey (cols ! i) \<and> (\<forall>j < i. \<not> IsPrimaryKey (cols ! j)) \<longrightarrow>
        (mssql_GetColumns dc db [tn] = Inr cols \<longrightarrow>
           mssql_GetPrimaryKey dc db tn = Inr (Column.ColumnName (cols ! i)))
      \<and> (mysql_GetColumns dc db [tn] = Inr cols \<longrightarrow>
           mysql_GetPrimaryKey dc db tn = Inr (Column.ColumnName (cols ! i))))
   \<and> (cols \<noteq> [] \<and> (\<forall>c \<in> set cols. \<not> IsPrimaryKey c) \<longrightarrow>
        (mssql_GetColumns dc db [tn] = Inr cols \<longrightarrow>
           mssql_GetPrimaryKey dc db tn = Inr (Column.ColumnName (cols ! 0)))
      \<and> (mysql_GetColumns dc db [tn] = Inr cols \<longrightarrow>
           mysql_GetPrimaryKey dc db tn = Inr (Column.ColumnName (cols ! 0))))"
proof (intro conjI impI)
  show "(\<exists>t. mssql_GetPrimaryKey dc db tn = Inl (TableNotFound t)) \<longleftrightarrow> mssql_GetColumns dc db [tn] = Inr []"
    by (auto simp: mssql_GetPrimaryKey_def mssql_GetColumns_def split: sum.splits option.splits)
next
  show "(\<exists>t. mysql_GetPrimaryKey dc db tn = Inl (TableNotFound t)) \<longleftrightarrow> mysql_GetColumns dc db [tn] = Inr []"
    by (auto simp: mysql_GetPrimaryKey_def mysql_GetColumns_def split: sum.splits option.splits)
next
  assume a: "i < length cols \<and> IsPrimaryKey (cols ! i) \<and> (\<forall>j < i. \<not> IsPrimaryKey (cols ! j))"
  then have f: "firstPrimaryKey cols = Some (Column.ColumnName (cols ! i))"
    unfolding firstPrimaryKey_Some by blast
  from a have ne: "cols \<noteq> []" by auto
  {
    assume "mssql_GetColumns dc db [tn] = Inr cols"
    with f ne show "mssql_GetPrimaryKey dc db tn = Inr (Column.ColumnName (cols ! i))"
      by (simp add: mssql_GetPrimaryKey_def)
  }
  {
    assume "mysql_GetColumns dc db [tn] = Inr cols"
    with f ne show "mysql_GetPrimaryKey dc db tn = Inr (Column.ColumnName (cols ! i))"
      by (simp add: mysql_GetPrimaryKey_def)
  }
next
  assume a: "cols \<noteq> [] \<and> (\<forall>c \<in> set cols. \<not> IsPrimaryKey c)"
  then have f: "firstPrimaryKey cols = None"
    unfolding firstPrimaryKey_None by blast
  {
    assume "mssql_GetColumns dc db [tn] = Inr cols"
    with f a show "mssql_GetPrimaryKey dc db tn = Inr (Column.ColumnName (cols ! 0))"
      by (simp add: mssql_GetPrimaryKey_def)
  }
  {
    assume "mysql_GetColumns dc db [tn] = Inr cols"
    with f a show "mysql_GetPrimaryKey dc db tn = Inr (Column.ColumnName (cols ! 0))"
      by (simp add: mysql_GetPrimaryKey_def)
  }
qed

theorem GetPrimaryKey_spec_witness:
  "mssql_GetPrimaryKey (sampleConn (Inr [col_a, col_b_pk, col_c_pk]) (Inr []) (Inr []) (Inr 0)) () ''t'' = Inr ''b''
   \<and> mysql_GetPrimaryKey (sampleConn (Inr [col_a, col_b_pk, col_c_pk]) (Inr []) (Inr []) (Inr 0)) () ''t'' = Inr ''b''
   \<and> mssql_GetPrimaryKey (sampleConn (Inr [col_a, col_a]) (Inr []) (Inr []) (Inr 0)) () ''t'' = Inr ''a''
   \<and> mysql_GetPrimaryKey (sampleConn (Inr [col_a, col_a]) (Inr []) (Inr []) (Inr 0)) () ''t'' = Inr ''a''
   \<and> (\<exists>t. mssql_GetPrimaryKey (sampleConn (Inr []) (Inr []) (Inr []) (Inr 0)) () ''t'' = Inl (TableNotFound t))
   \<and> (\<exists>t. mysql_GetPrimaryKey (sampleConn (Inr []) (Inr []) (Inr []) (Inr 0)) () ''t'' = Inl (TableNotFound t))"
  using GetPrimaryKey_spec [of "sampleConn (Inr [col_a, col_b_pk, col_c_pk]) (Inr []) (Inr []) (Inr 0)" "()" "''t''"
          1 "[col_a, col_b_pk, col_c_pk]"]
        GetPrimaryKey_spec [of "sampleConn (Inr [col_a, col_a]) (Inr []) (Inr []) (Inr 0)" "()" "''t''"
          0 "[col_a, col_a]"]
        GetPrimaryKey_spec [of "sampleConn (Inr []) (Inr []) (Inr []) (Inr 0)" "()" "''t''" 0 "[]"]
  by (simp add: col_a_def col_b_pk_def col_c_pk_def sampleConn_def mssql_GetColumns_def mysql_GetColumns_def)

text \<open>
  C8. Every native type that is a key of \<open>commonColumnTypeMap\<close> has a canonical image
  that is a key of \<open>mysqlColumnTypeMap\<close>; and the native string \<open>m\<close> reached that way is a
  fixed point of native-to-canonical-to-native: it is again a key of
  \<open>commonColumnTypeMap\<close>, and mapping it there and back yields \<open>m\<close> itself.
\<close>

theorem type_map_roundtrip:
  "\<forall>n \<in> dom commonColumnTypeMap.
     (\<exists>c m. commonColumnTypeMap n = Some c \<and> mysqlColumnTypeMap c = Some m
        \<and> Option.bind (commonColumnTypeMap m) mysqlColumnTypeMap = Some m)"
  unfolding commonColumnTypeMap_def mysqlColumnTypeMap_def dom_map_of_conv_image_fst
  by simp

theorem type_map_roundtrip_witness:
  "''double'' \<in> dom commonColumnTypeMap \<and> commonColumnTypeMap ''double'' = Some CommonTypeNumber
   \<and> mysqlColumnTypeMap CommonTypeNumber = Some ''decimal''
   \<and> Option.bind (commonColumnTypeMap ''decimal'') mysqlColumnTypeMap = Some ''decimal''"
proof -
  have d: "''double'' \<in> dom commonColumnTypeMap"
    by (simp add: commonColumnTypeMap_def)
  from type_map_roundtrip [rule_format, OF d]
  show ?thesis using d by (simp add: commonColumnTypeMap_def mysqlColumnTypeMap_def)
qed

text \<open>
  C9. \<open>ParseData\<close> of either dialect acts on a string only. For the kinds DateTime, Date
  and Time a string is parsed under the fixed layout of the kind (RFC3339 for the
  DateTime kind in the SQL Server driver, \<open>time.DateTime\<close> in the MySQL driver; the
  date-only and time-only layouts in both); when the parse fails the result is the zero
  time, and no error is raised (the function has no error result). For the kinds String
  and Number, and for every value that is not a string, the value is returned unchanged.
\<close>

theorem ParseData_spec:
  "mssql_ParseData p (VStr s) DataTypeDateTime = VTime (parseRes p RFC3339 s)
   \<and> mssql_ParseData p (VStr s) DataTypeDate = VTime (parseRes p DateOnly s)
   \<and> mssql_ParseData p (VStr s) DataTypeTime = VTime (parseRes p TimeOnly s)
   \<and> mysql_ParseData p (VStr s) DataTypeDateTime = VTime (parseRes p DateTime s)
   \<and> mysql_ParseData p (VStr s) DataTypeDate = VTime (parseRes p DateOnly s)
   \<and> mysql_ParseData p (VStr s) DataTypeTime = VTime (parseRes p TimeOnly s)
   \<and> (p l s = None \<longrightarrow> parseRes p l s = zeroTime)
   \<and> (p l s = Some t \<longrightarrow> parseRes p l s = t)
   \<and> (k = DataTypeString \<or> k = DataTypeNumber \<or> \<not> isString v \<longrightarrow>
        mssql_ParseData p v k = v \<and> mysql_ParseData p v k = v)"
  by (cases k) (auto simp: mssql_ParseData_def mysql_ParseData_def parseRes_def)

theorem ParseData_spec_witness:
  "mssql_ParseData (\<lambda>l s. if l = DateOnly \<and> s = ''2024-01-05'' then Some (GoTime 2024 1 5 0 0 0) else None)
       (VStr ''2024-01-05'') DataTypeDate = VTime (GoTime 2024 1 5 0 0 0)
   \<and> mysql_ParseData (\<lambda>l s. if l = DateOnly \<and> s = ''2024-01-05'' then Some (GoTime 2024 1 5 0 0 0) else None)
       (VStr ''2024-01-05'') DataTypeDate = VTime (GoTime 2024 1 5 0 0 0)
   \<and> mssql_ParseData (\<lambda>l s. if l = DateOnly \<and> s = ''2024-01-05'' then Some (GoTime 2024 1 5 0 0 0) else None)
       (VStr ''not-a-date'') DataTypeDate = VTime zeroTime
   \<and> mysql_ParseData (\<lambda>l s. if l = DateOnly \<and> s = ''2024-01-05'' then Some (GoTime 2024 1 5 0 0 0) else None)
       (VStr ''not-a-date'') DataTypeDate = VTime zeroTime
   \<and> mssql_ParseData (\<lambda>l s. if l = DateOnly \<and> s = ''2024-01-05'' then Some (GoTime 2024 1 5 0 0 0) else None)
       (VInt 7) DataTypeDate = VInt 7
   \<and> mysql_ParseData (\<lambda>l s. if l = DateOnly \<and> s = ''2024-01-05'' then Some (GoTime 2024 1 5 0 0 0) else None)
       (VStr ''2024-01-05'') DataTypeString = VStr ''2024-01-05''"
  using ParseData_spec [of "\<lambda>l s. if l = DateOnly \<and> s = ''2024-01-05'' then Some (GoTime 2024 1 5 0 0 0) else None"
          "''2024-01-05''" DateOnly "GoTime 2024 1 5 0 0 0" DataTypeString "VStr ''2024-01-05''"]
        ParseData_spec [of "\<lambda>l s. if l = DateOnly \<and> s = ''2024-01-05'' then Some (GoTime 2024 1 5 0 0 0) else None"
          "''not-a-date''" DateOnly "GoTime 2024 1 5 0 0 0" DataTypeDate "VInt 7"]
  by simp

text \<open>
  C10. The MySQL \<open>GetTableDDL\<close> is to read the first table only when \<open>GetTables\<close>
  returned one. When \<open>GetTables\<close> returns the empty list and no error, \<open>GetTableDDL\<close>
  reads \<open>tbs[0]\<close> all the same and panics.
\<close>

theorem GetTableDDL_panics:
  "mysql_GetTables (sampleConn (Inr [col_a]) (Inr []) (Inr []) (Inr 0)) () [''t''] = Inr []
   \<and> mysql_GetTableDDL h (sampleConn (Inr [col_a]) (Inr []) (Inr []) (Inr 0)) () ''t''
       = ([], Inl (Panic ''index out of range [0] with length 0''))"
  by (simp add: mysql_GetTableDDL_def mysql_GetTables_def tableDDLOf_def sampleConn_def)

end
